theory Spec2Isabelle
  imports Complex_Main "HOL-Library.Sublist"
begin

section \<open>JavaScript values used by the StormGlass client\<close>

text \<open>
  A JavaScript \<open>number\<close>. The client never computes with the measurements: it
  tests them for truthiness and copies them, so the finite values are kept as rationals
  and the special values of the type are listed. \<open>Finite 0\<close> is \<open>+0\<close>.
\<close>

datatype number = Finite rat | NegZero | NaN | PosInfinity | NegInfinity

text \<open>\<open>ToBoolean\<close> on a number: \<open>+0\<close>, \<open>-0\<close> and \<open>NaN\<close> are falsy.\<close>

fun truthyNumber :: "number \<Rightarrow> bool" where
  "truthyNumber (Finite q) = (q \<noteq> 0)"
| "truthyNumber NegZero = False"
| "truthyNumber NaN = False"
| "truthyNumber PosInfinity = True"
| "truthyNumber NegInfinity = True"

text \<open>
  A value that may be \<open>undefined\<close> is an \<open>option\<close>, \<open>None\<close> being
  \<open>undefined\<close>, which is falsy. A string is truthy when it is not empty.
\<close>

fun truthyNum :: "number option \<Rightarrow> bool" where
  "truthyNum None = False"
| "truthyNum (Some v) = truthyNumber v"

fun truthyStr :: "string option \<Rightarrow> bool" where
  "truthyStr None = False"
| "truthyStr (Some s) = (s \<noteq> [])"

section \<open>Data model (interfaces of stormGlass.ts)\<close>

text \<open>\<open>StormGlassPointSource\<close>: an object indexed by source name.\<close>

type_synonym StormGlassPointSource = "string \<rightharpoonup> number"

text \<open>
  \<open>StormGlassPoint\<close>. \<open>isValidPoint\<close> takes a \<open>Partial<StormGlassPoint>\<close>, so
  every property may be missing at run time: each field is an \<open>option\<close>.
\<close>

record StormGlassPoint =
  time :: "string option"
  swellDirection :: "StormGlassPointSource option"
  swellHeight :: "StormGlassPointSource option"
  swellPeriod :: "StormGlassPointSource option"
  waveDirection :: "StormGlassPointSource option"
  waveHeight :: "StormGlassPointSource option"
  windDirection :: "StormGlassPointSource option"
  windSpeed :: "StormGlassPointSource option"

text \<open>
  \<open>StormGlassForecastResponse\<close>. The interface declares \<open>hours\<close> mandatory; a
  payload received at run time may lack it, which is \<open>hours = None\<close>.
\<close>

record StormGlassForecastResponse =
  hours :: "StormGlassPoint list option"

text \<open>
  \<open>ForecastPoint\<close>. The interface declares a string and seven numbers. The object
  literal of \<open>normalizeResponse\<close> fills them with property reads, and a JavaScript
  read of an absent key yields \<open>undefined\<close> without raising, so the fields are
  \<open>option\<close>s here and the theorems on \<open>normalizeResponse\<close> show that they are
  always defined.
\<close>

record ForecastPoint =
  time :: "string option"
  swellDirection :: "number option"
  swellHeight :: "number option"
  swellPeriod :: "number option"
  waveDirection :: "number option"
  waveHeight :: "number option"
  windDirection :: "number option"
  windSpeed :: "number option"

section \<open>Errors\<close>

text \<open>
  A value thrown by a collaborator or by the JavaScript runtime, as the \<open>catch\<close>
  block sees it: \<open>err.message\<close>, and \<open>err.response\<close> (with \<open>data\<close> and
  \<open>status\<close>) when the HTTP layer got an answer from the server. The type \<open>'b\<close> is
  the type of an upstream error body.
\<close>

record 'b error_response =
  data :: 'b
  status :: number

record 'b js_error =
  message :: string
  response :: "'b error_response option"

text \<open>
  What an operation of the client throws: an instance of one of the three classes of
  stormGlass.ts, carrying its final \<open>message\<close>, or a foreign error that passes
  through the client uncaught.
\<close>

datatype 'b error =
    StormGlassUnexpectedResponseError string
  | ClientRequestError string
  | StormGlassResponseError string
  | Uncaught "'b js_error"

text \<open>
  The constructors of the classes. \<open>InternalError\<close> (utils/errors/internal-error) is
  not among the sources; it is taken to keep the message it is given, as \<open>Error\<close> does.
\<close>

definition new_StormGlassUnexpectedResponseError :: "string \<Rightarrow> 'b error" where
  "new_StormGlassUnexpectedResponseError msg = StormGlassUnexpectedResponseError msg"

definition new_ClientRequestError :: "string \<Rightarrow> 'b error" where
  "new_ClientRequestError msg =
     (let internalMessage = ''Unexpected error when trying to communicate to StormGlass''
      in ClientRequestError (internalMessage @ '': '' @ msg))"

definition new_StormGlassResponseError :: "string \<Rightarrow> 'b error" where
  "new_StormGlassResponseError msg =
     (let stormGlassErrorMessage = ''Unexpected error returned by the StormGlass Service''
      in StormGlassResponseError (stormGlassErrorMessage @ '': '' @ msg))"

text \<open>The class of a thrown error, as \<open>instanceof\<close> tells it.\<close>

datatype error_class =
    IsStormGlassUnexpectedResponseError
  | IsClientRequestError
  | IsStormGlassResponseError
  | IsForeign

fun classOf :: "'b error \<Rightarrow> error_class" where
  "classOf (StormGlassUnexpectedResponseError m) = IsStormGlassUnexpectedResponseError"
| "classOf (ClientRequestError m) = IsClientRequestError"
| "classOf (StormGlassResponseError m) = IsStormGlassResponseError"
| "classOf (Uncaught e) = IsForeign"

fun messageOf :: "'b error \<Rightarrow> string" where
  "messageOf (StormGlassUnexpectedResponseError m) = m"
| "messageOf (ClientRequestError m) = m"
| "messageOf (StormGlassResponseError m) = m"
| "messageOf (Uncaught e) = message e"

text \<open>
  The \<open>TypeError\<close> of the runtime on reading a property of \<open>undefined\<close> (the
  wording is V8's; no theorem depends on it).
\<close>

definition typeError :: "string \<Rightarrow> 'b js_error" where
  "typeError prop =
     \<lparr>message = ''Cannot read properties of undefined (reading ''
                  @ [CHR 0x27] @ prop @ [CHR 0x27] @ '')'',
      response = None\<rparr>"

text \<open>
  Modelled from the spec: \<open>HTTPUtil.Request.isRequestError\<close> (utils/request) is not
  among the sources. The spec: "the transport layer reports a structured upstream HTTP
  error (has a response body/status)".
\<close>

definition isRequestError :: "'b js_error \<Rightarrow> bool" where
  "isRequestError err = (case response err of None \<Rightarrow> False | Some r \<Rightarrow> True)"

section \<open>Response normalizer\<close>

definition stormGlassAPIParams :: string where
  "stormGlassAPIParams =
     ''swellDirection,swellHeight,swellPeriod,waveDirection,waveHeight,windDirection,windSpeed''"

definition stormGlassAPISource :: string where
  "stormGlassAPISource = ''noaa''"

text \<open>\<open>obj?.[key]\<close>: \<open>undefined\<close> when \<open>obj\<close> is, the read otherwise.\<close>

fun optionalRead :: "StormGlassPointSource option \<Rightarrow> string \<Rightarrow> number option" where
  "optionalRead None key = None"
| "optionalRead (Some src) key = src key"

text \<open>\<open>obj[key]\<close>: a \<open>TypeError\<close> when \<open>obj\<close> is \<open>undefined\<close>.\<close>

fun plainRead :: "StormGlassPointSource option \<Rightarrow> string \<Rightarrow> 'b js_error + number option" where
  "plainRead None key = Inl (typeError key)"
| "plainRead (Some src) key = Inr (src key)"

text \<open>
  \<open>isValidPoint\<close>: \<open>!!(a && b && ...)\<close> is the conjunction of the operands'
  truthiness.
\<close>

definition isValidPoint :: "StormGlassPoint \<Rightarrow> bool" where
  "isValidPoint point =
     (truthyStr (StormGlassPoint.time point) \<and>
      truthyNum (optionalRead (StormGlassPoint.swellDirection point) stormGlassAPISource) \<and>
      truthyNum (optionalRead (StormGlassPoint.swellHeight point) stormGlassAPISource) \<and>
      truthyNum (optionalRead (StormGlassPoint.swellPeriod point) stormGlassAPISource) \<and>
      truthyNum (optionalRead (StormGlassPoint.waveDirection point) stormGlassAPISource) \<and>
      truthyNum (optionalRead (StormGlassPoint.waveHeight point) stormGlassAPISource) \<and>
      truthyNum (optionalRead (StormGlassPoint.windDirection point) stormGlassAPISource) \<and>
      truthyNum (optionalRead (StormGlassPoint.windSpeed point) stormGlassAPISource))"

text \<open>
  The arrow function given to \<open>map\<close>: the properties of the object literal are
  evaluated in order, and the first read that raises ends it.
\<close>

definition toForecastPoint :: "StormGlassPoint \<Rightarrow> 'b js_error + ForecastPoint" where
  "toForecastPoint point =
     (case plainRead (StormGlassPoint.swellDirection point) stormGlassAPISource of
        Inl e \<Rightarrow> Inl e
      | Inr sd \<Rightarrow>
     (case plainRead (StormGlassPoint.swellHeight point) stormGlassAPISource of
        Inl e \<Rightarrow> Inl e
      | Inr sh \<Rightarrow>
     (case plainRead (StormGlassPoint.swellPeriod point) stormGlassAPISource of
        Inl e \<Rightarrow> Inl e
      | Inr sp \<Rightarrow>
     (case plainRead (StormGlassPoint.waveDirection point) stormGlassAPISource of
        Inl e \<Rightarrow> Inl e
      | Inr wd \<Rightarrow>
     (case plainRead (StormGlassPoint.waveHeight point) stormGlassAPISource of
        Inl e \<Rightarrow> Inl e
      | Inr wh \<Rightarrow>
     (case plainRead (StormGlassPoint.windDirection point) stormGlassAPISource of
        Inl e \<Rightarrow> Inl e
      | Inr wid \<Rightarrow>
     (case plainRead (StormGlassPoint.windSpeed point) stormGlassAPISource of
        Inl e \<Rightarrow> Inl e
      | Inr ws \<Rightarrow>
          Inr \<lparr>ForecastPoint.time = StormGlassPoint.time point,
               ForecastPoint.swellDirection = sd,
               ForecastPoint.swellHeight = sh,
               ForecastPoint.swellPeriod = sp,
               ForecastPoint.waveDirection = wd,
               ForecastPoint.waveHeight = wh,
               ForecastPoint.windDirection = wid,
               ForecastPoint.windSpeed = ws\<rparr>)))))))"

text \<open>\<open>Array.prototype.map\<close> with a callback that may raise.\<close>

fun mapThrowing :: "('a \<Rightarrow> 'e + 'c) \<Rightarrow> 'a list \<Rightarrow> 'e + 'c list" where
  "mapThrowing f [] = Inr []"
| "mapThrowing f (x # xs) =
     (case f x of
        Inl e \<Rightarrow> Inl e
      | Inr y \<Rightarrow> (case mapThrowing f xs of Inl e \<Rightarrow> Inl e | Inr ys \<Rightarrow> Inr (y # ys)))"

definition normalizeResponse :: "StormGlassForecastResponse \<Rightarrow> 'b js_error + ForecastPoint list" where
  "normalizeResponse points =
     (case hours points of
        None \<Rightarrow> Inl (typeError ''filter'')
      | Some hs \<Rightarrow> mapThrowing toForecastPoint (filter isValidPoint hs))"

section \<open>Collaborators\<close>

text \<open>
  The configuration \<open>App.resources.StormGlass\<close>, as loaded: the three keys that the
  client reads.
\<close>

record config =
  apiUrl :: string
  apiToken :: string
  cacheTtl :: number

text \<open>
  Built-ins of the language that the client relies on: the conversion of a number in a
  template literal, and \<open>JSON.stringify\<close> on an upstream error body.
\<close>

record 'b runtime =
  numberToString :: "number \<Rightarrow> string"
  JSON_stringify :: "'b \<Rightarrow> string"

text \<open>
  The collaborators given to the constructor (\<open>request\<close>, \<open>cacheUtil\<close>) and
  \<open>TimeUtil\<close>, over an outside world \<open>'w\<close> (the cache's store, the network, the
  clock). A call returns or throws (\<open>Inl\<close>) and leaves a new world.
  \<open>request_get url authorization\<close> yields \<open>response.data\<close>.
\<close>

record ('w, 'b) ports =
  cacheUtil_get :: "string \<Rightarrow> 'w \<Rightarrow> ('b js_error + ForecastPoint list option) \<times> 'w"
  cacheUtil_set :: "string \<Rightarrow> ForecastPoint list \<Rightarrow> number \<Rightarrow> 'w \<Rightarrow> ('b js_error + bool) \<times> 'w"
  request_get :: "string \<Rightarrow> string \<Rightarrow> 'w \<Rightarrow> ('b js_error + StormGlassForecastResponse) \<times> 'w"
  getUnixTimeForAFutureDay :: "nat \<Rightarrow> 'w \<Rightarrow> number"

text \<open>The calls that reach a collaborator, in the order they are made.\<close>

datatype event =
    CacheGet string
  | CacheSet string "ForecastPoint list" number
  | HttpGet string string
  | LoggerInfo string

record 'w state =
  world :: 'w
  trace :: "event list"

fun isHttpGet :: "event \<Rightarrow> bool" where
  "isHttpGet (HttpGet url auth) = True"
| "isHttpGet ev = False"

fun isCacheSet :: "event \<Rightarrow> bool" where
  "isCacheSet (CacheSet key v ttl) = True"
| "isCacheSet ev = False"

section \<open>The client (class StormGlass)\<close>

definition getCacheKey :: "'b runtime \<Rightarrow> number \<Rightarrow> number \<Rightarrow> string" where
  "getCacheKey rt lat lng =
     ''forecast_points_'' @ numberToString rt lat @ ''_'' @ numberToString rt lng"

definition getForecastPointsFromCache ::
  "('w, 'b) ports \<Rightarrow> string \<Rightarrow> 'w state
     \<Rightarrow> ('b js_error + ForecastPoint list option) \<times> 'w state" where
  "getForecastPointsFromCache P key s =
     (case cacheUtil_get P key (world s) of (r, w) \<Rightarrow>
        (let s1 = \<lparr>world = w, trace = trace s @ [CacheGet key]\<rparr> in
         case r of
           Inl e \<Rightarrow> (Inl e, s1)
         | Inr None \<Rightarrow> (Inr None, s1)
         | Inr (Some forecastPointsFromCache) \<Rightarrow>
             (Inr (Some forecastPointsFromCache),
              s1\<lparr>trace := trace s1 @
                [LoggerInfo (''Using cache to return forecast points for key: '' @ key)]\<rparr>)))"

definition setForecastPointsInCache ::
  "config \<Rightarrow> ('w, 'b) ports \<Rightarrow> string \<Rightarrow> ForecastPoint list \<Rightarrow> 'w state
     \<Rightarrow> ('b js_error + bool) \<times> 'w state" where
  "setForecastPointsInCache cfg P key forecastPoints s =
     (let s1 = s\<lparr>trace := trace s @
                [LoggerInfo (''Updating cache to return forecast points for key: '' @ key)]\<rparr>
      in case cacheUtil_set P key forecastPoints (cacheTtl cfg) (world s1) of (r, w) \<Rightarrow>
           (r, \<lparr>world = w, trace = trace s1 @ [CacheSet key forecastPoints (cacheTtl cfg)]\<rparr>))"

definition requestUrl :: "'b runtime \<Rightarrow> config \<Rightarrow> number \<Rightarrow> number \<Rightarrow> number \<Rightarrow> string" where
  "requestUrl rt cfg lat lng endTimestamp =
     apiUrl cfg @ ''/weather/point?lat='' @ numberToString rt lat
       @ ''&lng='' @ numberToString rt lng
       @ ''&params='' @ stormGlassAPIParams
       @ ''&source='' @ stormGlassAPISource
       @ ''&end='' @ numberToString rt endTimestamp"

text \<open>The \<open>catch\<close> block of \<open>getForecastPointsFromApi\<close>: what it throws for \<open>err\<close>.\<close>

definition catchBlock :: "'b runtime \<Rightarrow> 'b js_error \<Rightarrow> 'b error" where
  "catchBlock rt err =
     (if isRequestError err then
        (case response err of
           None \<Rightarrow> Uncaught (typeError ''data'')
         | Some r \<Rightarrow>
             new_StormGlassResponseError
               (''Error: '' @ JSON_stringify rt (data r)
                  @ '' Code: '' @ numberToString rt (status r)))
      else new_ClientRequestError (message err))"

definition getForecastPointsFromApi ::
  "'b runtime \<Rightarrow> config \<Rightarrow> ('w, 'b) ports \<Rightarrow> number \<Rightarrow> number \<Rightarrow> 'w state
     \<Rightarrow> ('b error + ForecastPoint list) \<times> 'w state" where
  "getForecastPointsFromApi rt cfg P lat lng s =
     (let endTimestamp = getUnixTimeForAFutureDay P 1 (world s);
          url = requestUrl rt cfg lat lng endTimestamp
      in case request_get P url (apiToken cfg) (world s) of (r, w) \<Rightarrow>
           (let s1 = \<lparr>world = w, trace = trace s @ [HttpGet url (apiToken cfg)]\<rparr> in
            case (case r of Inl err \<Rightarrow> Inl err | Inr d \<Rightarrow> normalizeResponse d) of
              Inr forecastPoints \<Rightarrow> (Inr forecastPoints, s1)
            | Inl err \<Rightarrow> (Inl (catchBlock rt err), s1)))"

definition fetchPoints ::
  "'b runtime \<Rightarrow> config \<Rightarrow> ('w, 'b) ports \<Rightarrow> number \<Rightarrow> number \<Rightarrow> 'w state
     \<Rightarrow> ('b error + ForecastPoint list) \<times> 'w state" where
  "fetchPoints rt cfg P lat lng s =
     (case getForecastPointsFromCache P (getCacheKey rt lat lng) s of
        (Inl e, s1) \<Rightarrow> (Inl (Uncaught e), s1)
      | (Inr (Some cachedForecastPoints), s1) \<Rightarrow> (Inr cachedForecastPoints, s1)
      | (Inr None, s1) \<Rightarrow>
          (case getForecastPointsFromApi rt cfg P lat lng s1 of
             (Inl e, s2) \<Rightarrow> (Inl e, s2)
           | (Inr forecastPoints, s2) \<Rightarrow>
               (case setForecastPointsInCache cfg P (getCacheKey rt lat lng) forecastPoints s2 of
                  (Inl e, s3) \<Rightarrow> (Inl (Uncaught e), s3)
                | (Inr ok, s3) \<Rightarrow> (Inr forecastPoints, s3))))"

section \<open>The spec's words for the normalizer\<close>

text \<open>
  The spec, on a valid record: "projects the seven mappings down to their scalar value
  at the configured source name, producing a flat ForecastPoint". The scalar value of a
  mapping at a source name:
\<close>

definition scalarAt :: "StormGlassPointSource option \<Rightarrow> string \<Rightarrow> number option" where
  "scalarAt mapping source = Option.bind mapping (\<lambda>m. m source)"

definition spec_flatten :: "StormGlassPoint \<Rightarrow> ForecastPoint" where
  "spec_flatten r =
     \<lparr>ForecastPoint.time = StormGlassPoint.time r,
      ForecastPoint.swellDirection = scalarAt (StormGlassPoint.swellDirection r) stormGlassAPISource,
      ForecastPoint.swellHeight = scalarAt (StormGlassPoint.swellHeight r) stormGlassAPISource,
      ForecastPoint.swellPeriod = scalarAt (StormGlassPoint.swellPeriod r) stormGlassAPISource,
      ForecastPoint.waveDirection = scalarAt (StormGlassPoint.waveDirection r) stormGlassAPISource,
      ForecastPoint.waveHeight = scalarAt (StormGlassPoint.waveHeight r) stormGlassAPISource,
      ForecastPoint.windDirection = scalarAt (StormGlassPoint.windDirection r) stormGlassAPISource,
      ForecastPoint.windSpeed = scalarAt (StormGlassPoint.windSpeed r) stormGlassAPISource\<rparr>"

text \<open>A flat point all of whose eight fields are defined.\<close>

definition allDefined :: "ForecastPoint \<Rightarrow> bool" where
  "allDefined q =
     (ForecastPoint.time q \<noteq> None \<and>
      ForecastPoint.swellDirection q \<noteq> None \<and>
      ForecastPoint.swellHeight q \<noteq> None \<and>
      ForecastPoint.swellPeriod q \<noteq> None \<and>
      ForecastPoint.waveDirection q \<noteq> None \<and>
      ForecastPoint.waveHeight q \<noteq> None \<and>
      ForecastPoint.windDirection q \<noteq> None \<and>
      ForecastPoint.windSpeed q \<noteq> None)"

text \<open>
  The spec, on validity: "a non-empty time field AND every one of the seven measurement
  mappings contains a truthy (non-zero, defined) value under the configured source
  name".
\<close>

definition measurementMappings :: "(StormGlassPoint \<Rightarrow> StormGlassPointSource option) list" where
  "measurementMappings =
     [StormGlassPoint.swellDirection, StormGlassPoint.swellHeight, StormGlassPoint.swellPeriod,
      StormGlassPoint.waveDirection, StormGlassPoint.waveHeight, StormGlassPoint.windDirection,
      StormGlassPoint.windSpeed]"

definition nonEmptyTime :: "StormGlassPoint \<Rightarrow> bool" where
  "nonEmptyTime r = (case StormGlassPoint.time r of None \<Rightarrow> False | Some t \<Rightarrow> t \<noteq> [])"

definition definedTruthyAt :: "StormGlassPointSource option \<Rightarrow> string \<Rightarrow> bool" where
  "definedTruthyAt mapping source =
     (case mapping of
        None \<Rightarrow> False
      | Some m \<Rightarrow> (case m source of None \<Rightarrow> False | Some v \<Rightarrow> truthyNumber v))"

definition zeroAt :: "StormGlassPointSource option \<Rightarrow> string \<Rightarrow> bool" where
  "zeroAt mapping source =
     (case mapping of None \<Rightarrow> False | Some m \<Rightarrow> m source = Some (Finite 0) \<or> m source = Some NegZero)"

section \<open>Example inputs\<close>

definition validRecord :: StormGlassPoint where
  "validRecord =
     \<lparr>StormGlassPoint.time = Some ''t1'',
      StormGlassPoint.swellDirection = Some [''noaa'' \<mapsto> Finite 1],
      StormGlassPoint.swellHeight = Some [''noaa'' \<mapsto> Finite 2],
      StormGlassPoint.swellPeriod = Some [''noaa'' \<mapsto> Finite 3],
      StormGlassPoint.waveDirection = Some [''noaa'' \<mapsto> Finite 4],
      StormGlassPoint.waveHeight = Some [''noaa'' \<mapsto> Finite (1/2)],
      StormGlassPoint.windDirection = Some [''noaa'' \<mapsto> Finite 6],
      StormGlassPoint.windSpeed = Some [''noaa'' \<mapsto> Finite 5]\<rparr>"

text \<open>The spec's second record: no \<open>noaa\<close> under \<open>swellDirection\<close>.\<close>

definition recordWithoutSource :: StormGlassPoint where
  "recordWithoutSource =
     validRecord\<lparr>StormGlassPoint.time := Some ''t2'',
                 StormGlassPoint.swellDirection := Some Map.empty\<rparr>"

text \<open>A record whose wave direction is a genuine 0.\<close>

definition recordWithZero :: StormGlassPoint where
  "recordWithZero =
     validRecord\<lparr>StormGlassPoint.time := Some ''t3'',
                 StormGlassPoint.waveDirection := Some [''noaa'' \<mapsto> Finite 0]\<rparr>"

definition laterValidRecord :: StormGlassPoint where
  "laterValidRecord =
     validRecord\<lparr>StormGlassPoint.time := Some ''t0'',
                 StormGlassPoint.windSpeed := Some [''noaa'' \<mapsto> Finite 7, ''sg'' \<mapsto> Finite 9]\<rparr>"

definition exampleResponse :: StormGlassForecastResponse where
  "exampleResponse =
     \<lparr>hours = Some [validRecord, recordWithoutSource, recordWithZero, laterValidRecord]\<rparr>"

definition examplePoint :: ForecastPoint where
  "examplePoint =
     \<lparr>ForecastPoint.time = Some ''t1'',
      ForecastPoint.swellDirection = Some (Finite 1),
      ForecastPoint.swellHeight = Some (Finite 2),
      ForecastPoint.swellPeriod = Some (Finite 3),
      ForecastPoint.waveDirection = Some (Finite 4),
      ForecastPoint.waveHeight = Some (Finite (1/2)),
      ForecastPoint.windDirection = Some (Finite 6),
      ForecastPoint.windSpeed = Some (Finite 5)\<rparr>"

text \<open>
  An example environment: the cache is an association list, the upstream answers every
  request with \<open>exampleResponse\<close>, and the clock is fixed. The number conversion is
  tabulated on the numbers the examples use.
\<close>

type_synonym store = "(string \<times> ForecastPoint list) list"

definition exampleRuntime :: "string runtime" where
  "exampleRuntime =
     \<lparr>numberToString = (\<lambda>n. if n = Finite 10 then ''10''
                             else if n = Finite 20 then ''20''
                             else if n = Finite 429 then ''429''
                             else if n = Finite 1700000000 then ''1700000000''
                             else ''NaN''),
      JSON_stringify = (\<lambda>body. body)\<rparr>"

definition exampleConfig :: config where
  "exampleConfig =
     \<lparr>apiUrl = ''https://api.stormglass.io/v2'', apiToken = ''token'', cacheTtl = Finite 3600\<rparr>"

definition examplePorts :: "(store, string) ports" where
  "examplePorts =
     \<lparr>cacheUtil_get = (\<lambda>key w. (Inr (map_of w key), w)),
      cacheUtil_set = (\<lambda>key v ttl w. (Inr True, (key, v) # w)),
      request_get = (\<lambda>url auth w. (Inr exampleResponse, w)),
      getUnixTimeForAFutureDay = (\<lambda>days w. Finite 1700000000)\<rparr>"

definition exampleKey :: string where
  "exampleKey = ''forecast_points_10_20''"

definition exampleUrl :: string where
  "exampleUrl = ''https://api.stormglass.io/v2/weather/point?lat=10&lng=20&params=swellDirection,swellHeight,swellPeriod,waveDirection,waveHeight,windDirection,windSpeed&source=noaa&end=1700000000''"

definition exampleFresh :: "ForecastPoint list" where
  "exampleFresh =
     [examplePoint,
      examplePoint\<lparr>ForecastPoint.time := Some ''t0'', ForecastPoint.windSpeed := Some (Finite 7)\<rparr>]"

definition emptyState :: "store state" where
  "emptyState = \<lparr>world = [], trace = []\<rparr>"

text \<open>A cache that holds an entry for the key, and one whose entry is the empty list.\<close>

definition warmState :: "store state" where
  "warmState = \<lparr>world = [(exampleKey, [examplePoint])], trace = []\<rparr>"

definition emptyEntryState :: "store state" where
  "emptyEntryState = \<lparr>world = [(exampleKey, [])], trace = []\<rparr>"

text \<open>A cache whose \<open>set\<close> reports failure, and one whose \<open>get\<close> throws.\<close>

definition portsSetFails :: "(store, string) ports" where
  "portsSetFails = examplePorts\<lparr>cacheUtil_set := (\<lambda>key v ttl w. (Inr False, w))\<rparr>"

definition cacheDown :: "string js_error" where
  "cacheDown = \<lparr>message = ''cache unavailable'', response = None\<rparr>"

definition portsGetThrows :: "(store, string) ports" where
  "portsGetThrows = examplePorts\<lparr>cacheUtil_get := (\<lambda>key w. (Inl cacheDown, w))\<rparr>"

text \<open>
  An upstream that answers with an HTTP error, a network that fails before any answer,
  and an upstream whose body has no \<open>hours\<close>.
\<close>

definition rateLimited :: "string js_error" where
  "rateLimited =
     \<lparr>message = ''Request failed with status code 429'',
      response = Some \<lparr>data = ''{errors:[Rate Limit reached]}'', status = Finite 429\<rparr>\<rparr>"

definition networkError :: "string js_error" where
  "networkError = \<lparr>message = ''Network Error'', response = None\<rparr>"

definition portsUpstreamRejects :: "(store, string) ports" where
  "portsUpstreamRejects = examplePorts\<lparr>request_get := (\<lambda>url auth w. (Inl rateLimited, w))\<rparr>"

definition portsNetworkDown :: "(store, string) ports" where
  "portsNetworkDown = examplePorts\<lparr>request_get := (\<lambda>url auth w. (Inl networkError, w))\<rparr>"

definition portsMalformedBody :: "(store, string) ports" where
  "portsMalformedBody = examplePorts\<lparr>request_get := (\<lambda>url auth w. (Inr \<lparr>hours = None\<rparr>, w))\<rparr>"

text \<open>An upstream all of whose records are invalid.\<close>

definition portsAllInvalid :: "(store, string) ports" where
  "portsAllInvalid =
     examplePorts\<lparr>request_get :=
       (\<lambda>url auth w. (Inr \<lparr>hours = Some [recordWithZero, recordWithoutSource]\<rparr>, w))\<rparr>"








text \<open>The events a call added to the trace it started from.\<close>

definition newEvents :: "'w state \<Rightarrow> 'w state \<Rightarrow> event list" where
  "newEvents before after = drop (length (trace before)) (trace after)"

section \<open>Lemmas on the normalizer\<close>

lemma mapThrowing_total:
  assumes "\<And>x. x \<in> set xs \<Longrightarrow> f x = Inr (g x)"
  shows "mapThrowing f xs = Inr (map g xs)"
  using assms by (induction xs) simp_all

lemma truthyNum_defined: "truthyNum x \<Longrightarrow> \<exists>v. x = Some v"
  by (cases x) simp_all

lemma optionalRead_defined:
  "truthyNum (optionalRead mapping key) \<Longrightarrow> \<exists>m v. mapping = Some m \<and> m key = Some v"
  by (cases mapping) (auto dest: truthyNum_defined)

lemma plainRead_of_valid:
  "truthyNum (optionalRead mapping key) \<Longrightarrow> plainRead mapping key = Inr (scalarAt mapping key)"
  by (cases mapping) (simp_all add: scalarAt_def)

lemma scalarAt_of_valid:
  "truthyNum (optionalRead mapping key) \<Longrightarrow> scalarAt mapping key \<noteq> None"
  by (cases mapping) (auto simp: scalarAt_def dest: truthyNum_defined)

lemma truthyStr_defined: "truthyStr x \<Longrightarrow> x \<noteq> None"
  by (cases x) simp_all

lemma toForecastPoint_of_valid:
  assumes "isValidPoint point"
  shows "toForecastPoint point = Inr (spec_flatten point)"
  using assms
  by (simp add: isValidPoint_def toForecastPoint_def spec_flatten_def plainRead_of_valid)

lemma allDefined_of_valid:
  assumes "isValidPoint point"
  shows "allDefined (spec_flatten point)"
  using assms
  by (simp add: isValidPoint_def allDefined_def spec_flatten_def scalarAt_of_valid truthyStr_defined)

lemma optionalRead_truthy_iff:
  "truthyNum (optionalRead mapping key) = definedTruthyAt mapping key"
  by (cases mapping) (auto simp: definedTruthyAt_def split: option.splits)

lemma zeroAt_not_truthy: "zeroAt mapping key \<Longrightarrow> \<not> definedTruthyAt mapping key"
  by (cases mapping) (auto simp: zeroAt_def definedTruthyAt_def)

section \<open>Claims on the normalizer\<close>

text \<open>
  C3. For a raw response with N hourly records of which M fail the validity check,
  \<open>normalizeResponse\<close> returns (it does not raise) exactly N - M points, in the
  original order of the valid records: the result is the list of the valid records, in
  their order, each one flattened as the spec says. The time fields of the result are
  those of the valid records, unmodified, and every field of every point is defined.
\<close>

theorem normalizeResponse_keeps_valid_in_order:
  assumes "hours points = Some hs"
  shows "(normalizeResponse points :: 'b js_error + ForecastPoint list)
           = Inr (map spec_flatten (filter isValidPoint hs))
         \<and> length (map spec_flatten (filter isValidPoint hs))
           = length hs - length (filter (\<lambda>r. \<not> isValidPoint r) hs)
         \<and> map ForecastPoint.time (map spec_flatten (filter isValidPoint hs))
           = map StormGlassPoint.time (filter isValidPoint hs)
         \<and> list_all allDefined (map spec_flatten (filter isValidPoint hs))"
proof -
  have run: "(mapThrowing toForecastPoint (filter isValidPoint hs) :: 'b js_error + ForecastPoint list)
               = Inr (map spec_flatten (filter isValidPoint hs))"
    by (rule mapThrowing_total) (simp add: toForecastPoint_of_valid)
  have count: "length (filter isValidPoint hs) + length (filter (\<lambda>r. \<not> isValidPoint r) hs) = length hs"
    by (rule sum_length_filter_compl)
  have times: "map ForecastPoint.time (map spec_flatten (filter isValidPoint hs))
                 = map StormGlassPoint.time (filter isValidPoint hs)"
    by (simp add: spec_flatten_def)
  have defined: "list_all allDefined (map spec_flatten (filter isValidPoint hs))"
    by (simp add: list_all_iff allDefined_of_valid)
  from assms run count times defined show ?thesis
    by (simp add: normalizeResponse_def)
qed

theorem normalizeResponse_keeps_valid_in_order_witness:
  "hours exampleResponse = Some [validRecord, recordWithoutSource, recordWithZero, laterValidRecord]
   \<and> (normalizeResponse exampleResponse :: unit js_error + ForecastPoint list)
       = Inr [examplePoint,
              examplePoint\<lparr>ForecastPoint.time := Some ''t0'', ForecastPoint.windSpeed := Some (Finite 7)\<rparr>]
   \<and> length [validRecord, recordWithoutSource, recordWithZero, laterValidRecord]
       - length (filter (\<lambda>r. \<not> isValidPoint r)
           [validRecord, recordWithoutSource, recordWithZero, laterValidRecord]) = 2"
proof -
  have h: "hours exampleResponse = Some [validRecord, recordWithoutSource, recordWithZero, laterValidRecord]"
    by (simp add: exampleResponse_def)
  have v: "isValidPoint validRecord" "\<not> isValidPoint recordWithoutSource"
    "\<not> isValidPoint recordWithZero" "isValidPoint laterValidRecord"
    by (simp_all add: isValidPoint_def validRecord_def recordWithoutSource_def recordWithZero_def
          laterValidRecord_def stormGlassAPISource_def)
  have f: "spec_flatten validRecord = examplePoint"
    "spec_flatten laterValidRecord
       = examplePoint\<lparr>ForecastPoint.time := Some ''t0'', ForecastPoint.windSpeed := Some (Finite 7)\<rparr>"
    by (simp_all add: spec_flatten_def scalarAt_def validRecord_def laterValidRecord_def
          examplePoint_def stormGlassAPISource_def)
  from normalizeResponse_keeps_valid_in_order [OF h, where 'b = unit] h v f
  show ?thesis by simp
qed

text \<open>
  C4. The validity check accepts a raw hourly record if and only if its time field is
  non-empty and each of the seven measurement mappings holds, under the configured
  source name, a defined value that is truthy (for a number: not 0, not -0, not NaN). In
  particular a record one of whose measurements is zero under the source name is
  rejected.
\<close>

theorem isValidPoint_iff_time_and_seven_truthy:
  "(isValidPoint r
      = (nonEmptyTime r \<and> (\<forall>f \<in> set measurementMappings. definedTruthyAt (f r) stormGlassAPISource)))
   \<and> ((\<exists>f \<in> set measurementMappings. zeroAt (f r) stormGlassAPISource) \<longrightarrow> \<not> isValidPoint r)"
proof -
  have t: "truthyStr (StormGlassPoint.time r) = nonEmptyTime r"
    by (cases "StormGlassPoint.time r") (simp_all add: nonEmptyTime_def)
  have iff: "isValidPoint r
      = (nonEmptyTime r \<and> (\<forall>f \<in> set measurementMappings. definedTruthyAt (f r) stormGlassAPISource))"
    by (simp add: isValidPoint_def measurementMappings_def t optionalRead_truthy_iff)
  have zero: "(\<exists>f \<in> set measurementMappings. zeroAt (f r) stormGlassAPISource) \<longrightarrow> \<not> isValidPoint r"
    unfolding iff using zeroAt_not_truthy by blast
  from iff zero show ?thesis by simp
qed

theorem isValidPoint_iff_time_and_seven_truthy_witness:
  "isValidPoint validRecord
   \<and> nonEmptyTime validRecord
   \<and> list_all (\<lambda>f. definedTruthyAt (f validRecord) stormGlassAPISource) measurementMappings
   \<and> list_ex (\<lambda>f. zeroAt (f recordWithZero) stormGlassAPISource) measurementMappings
   \<and> \<not> isValidPoint recordWithZero"
proof -
  have z: "\<exists>f \<in> set measurementMappings. zeroAt (f recordWithZero) stormGlassAPISource"
    by (simp add: measurementMappings_def zeroAt_def recordWithZero_def validRecord_def
          stormGlassAPISource_def)
  have a: "nonEmptyTime validRecord
     \<and> (\<forall>f \<in> set measurementMappings. definedTruthyAt (f validRecord) stormGlassAPISource)"
    by (simp add: measurementMappings_def nonEmptyTime_def definedTruthyAt_def validRecord_def
          stormGlassAPISource_def)
  have accepted: "isValidPoint validRecord"
    using isValidPoint_iff_time_and_seven_truthy [of validRecord] a by blast
  have rejected: "\<not> isValidPoint recordWithZero"
    using isValidPoint_iff_time_and_seven_truthy [of recordWithZero] z by blast
  from accepted rejected a z show ?thesis
    by (simp only: list_all_iff list_ex_iff) blast
qed

section \<open>Lemmas on the client\<close>

lemma example_key: "getCacheKey exampleRuntime (Finite 10) (Finite 20) = exampleKey"
  by (simp add: getCacheKey_def exampleRuntime_def exampleKey_def)

lemma example_url:
  "requestUrl exampleRuntime exampleConfig (Finite 10) (Finite 20) (Finite 1700000000) = exampleUrl"
  by (simp add: requestUrl_def exampleRuntime_def exampleConfig_def exampleUrl_def
        stormGlassAPIParams_def stormGlassAPISource_def)

lemma example_normalized:
  "(normalizeResponse exampleResponse :: 'b js_error + ForecastPoint list) = Inr exampleFresh"
proof -
  have v: "isValidPoint validRecord" "\<not> isValidPoint recordWithoutSource"
    "\<not> isValidPoint recordWithZero" "isValidPoint laterValidRecord"
    by (simp_all add: isValidPoint_def validRecord_def recordWithoutSource_def recordWithZero_def
          laterValidRecord_def stormGlassAPISource_def)
  have f: "(toForecastPoint validRecord :: 'b js_error + ForecastPoint) = Inr examplePoint"
    "(toForecastPoint laterValidRecord :: 'b js_error + ForecastPoint)
       = Inr (examplePoint\<lparr>ForecastPoint.time := Some ''t0'', ForecastPoint.windSpeed := Some (Finite 7)\<rparr>)"
    by (simp_all add: toForecastPoint_def validRecord_def laterValidRecord_def
          examplePoint_def stormGlassAPISource_def)
  show ?thesis
    by (simp add: normalizeResponse_def exampleResponse_def exampleFresh_def v f)
qed

lemma cache_returns:
  assumes "cacheUtil_get P key (world s) = (Inr (Some cached), w)"
  shows "getForecastPointsFromCache P key s
           = (Inr (Some cached),
              \<lparr>world = w,
               trace = trace s @ [CacheGet key,
                 LoggerInfo (''Using cache to return forecast points for key: '' @ key)]\<rparr>)"
  using assms by (simp add: getForecastPointsFromCache_def)

lemma cache_absent:
  assumes "cacheUtil_get P key (world s) = (Inr None, w)"
  shows "getForecastPointsFromCache P key s = (Inr None, \<lparr>world = w, trace = trace s @ [CacheGet key]\<rparr>)"
  using assms by (simp add: getForecastPointsFromCache_def)

lemma cache_throws:
  assumes "cacheUtil_get P key (world s) = (Inl e, w)"
  shows "getForecastPointsFromCache P key s = (Inl e, \<lparr>world = w, trace = trace s @ [CacheGet key]\<rparr>)"
  using assms by (simp add: getForecastPointsFromCache_def)

lemma fetchPoints_present:
  assumes "cacheUtil_get P (getCacheKey rt lat lng) (world s) = (Inr (Some cached), w)"
  shows "fetchPoints rt cfg P lat lng s
           = (Inr cached,
              \<lparr>world = w,
               trace = trace s @ [CacheGet (getCacheKey rt lat lng),
                 LoggerInfo (''Using cache to return forecast points for key: ''
                               @ getCacheKey rt lat lng)]\<rparr>)"
  by (simp add: fetchPoints_def cache_returns [OF assms])

lemma api_trace:
  "trace (snd (getForecastPointsFromApi rt cfg P lat lng s))
     = trace s @ [HttpGet (requestUrl rt cfg lat lng (getUnixTimeForAFutureDay P 1 (world s)))
                    (apiToken cfg)]"
  by (simp add: getForecastPointsFromApi_def Let_def split: prod.splits sum.splits)

lemma api_caught:
  assumes "request_get P (requestUrl rt cfg lat lng (getUnixTimeForAFutureDay P 1 (world s)))
             (apiToken cfg) (world s) = (Inl err, w)"
  shows "fst (getForecastPointsFromApi rt cfg P lat lng s) = Inl (catchBlock rt err)"
  using assms by (simp add: getForecastPointsFromApi_def Let_def)

lemma api_error_is_caught:
  assumes "fst (getForecastPointsFromApi rt cfg P lat lng s) = Inl e"
  shows "\<exists>err. e = catchBlock rt err"
  using assms
  by (auto simp: getForecastPointsFromApi_def Let_def split: prod.splits sum.splits)

lemma catchBlock_class:
  "classOf (catchBlock rt err) = (if response err = None then IsClientRequestError
                                  else IsStormGlassResponseError)"
  by (simp add: catchBlock_def isRequestError_def new_ClientRequestError_def
        new_StormGlassResponseError_def split: option.splits)

lemma fetchPoints_absent:
  assumes "cacheUtil_get P (getCacheKey rt lat lng) (world s) = (Inr None, w)"
  shows "fetchPoints rt cfg P lat lng s
           = (case getForecastPointsFromApi rt cfg P lat lng
                     \<lparr>world = w, trace = trace s @ [CacheGet (getCacheKey rt lat lng)]\<rparr> of
                (Inl e, s2) \<Rightarrow> (Inl e, s2)
              | (Inr forecastPoints, s2) \<Rightarrow>
                  (case setForecastPointsInCache cfg P (getCacheKey rt lat lng) forecastPoints s2 of
                     (Inl e, s3) \<Rightarrow> (Inl (Uncaught e), s3)
                   | (Inr ok, s3) \<Rightarrow> (Inr forecastPoints, s3)))"
  by (simp add: fetchPoints_def cache_absent [OF assms])

lemma set_trace:
  "trace (snd (setForecastPointsInCache cfg P key forecastPoints s))
     = trace s @ [LoggerInfo (''Updating cache to return forecast points for key: '' @ key),
                  CacheSet key forecastPoints (cacheTtl cfg)]"
  by (simp add: setForecastPointsInCache_def Let_def split: prod.splits)

lemma set_result:
  "fst (setForecastPointsInCache cfg P key forecastPoints s)
     = fst (cacheUtil_set P key forecastPoints (cacheTtl cfg) (world s))"
  by (simp add: setForecastPointsInCache_def Let_def split: prod.splits)

lemma fetchPoints_fresh_trace:
  assumes "cacheUtil_get P (getCacheKey rt lat lng) (world s) = (Inr None, w)"
    and "getForecastPointsFromApi rt cfg P lat lng
           \<lparr>world = w, trace = trace s @ [CacheGet (getCacheKey rt lat lng)]\<rparr> = (Inr fresh, s2)"
  shows "trace (snd (fetchPoints rt cfg P lat lng s))
           = trace s @
             [CacheGet (getCacheKey rt lat lng),
              HttpGet (requestUrl rt cfg lat lng (getUnixTimeForAFutureDay P 1 w)) (apiToken cfg),
              LoggerInfo (''Updating cache to return forecast points for key: ''
                            @ getCacheKey rt lat lng),
              CacheSet (getCacheKey rt lat lng) fresh (cacheTtl cfg)]"
proof -
  have t2: "trace s2 = trace s @
      [CacheGet (getCacheKey rt lat lng),
       HttpGet (requestUrl rt cfg lat lng (getUnixTimeForAFutureDay P 1 w)) (apiToken cfg)]"
    using api_trace [of rt cfg P lat lng
        "\<lparr>world = w, trace = trace s @ [CacheGet (getCacheKey rt lat lng)]\<rparr>"] assms(2)
    by simp
  have "trace (snd (fetchPoints rt cfg P lat lng s))
          = trace (snd (setForecastPointsInCache cfg P (getCacheKey rt lat lng) fresh s2))"
    by (simp add: fetchPoints_absent [OF assms(1)] assms(2) split: prod.splits sum.splits)
  then show ?thesis by (simp add: set_trace t2)
qed

lemma fetchPoints_fresh_result:
  assumes "cacheUtil_get P (getCacheKey rt lat lng) (world s) = (Inr None, w)"
    and "getForecastPointsFromApi rt cfg P lat lng
           \<lparr>world = w, trace = trace s @ [CacheGet (getCacheKey rt lat lng)]\<rparr> = (Inr fresh, s2)"
    and "fst (cacheUtil_set P (getCacheKey rt lat lng) fresh (cacheTtl cfg) (world s2)) = Inr ok"
  shows "fst (fetchPoints rt cfg P lat lng s) = Inr fresh"
proof -
  have "fst (setForecastPointsInCache cfg P (getCacheKey rt lat lng) fresh s2) = Inr ok"
    by (simp add: set_result assms(3))
  then show ?thesis
    by (auto simp: fetchPoints_absent [OF assms(1)] assms(2) split: prod.splits sum.splits)
qed

lemma set_world:
  "world (snd (setForecastPointsInCache cfg P key forecastPoints s))
     = snd (cacheUtil_set P key forecastPoints (cacheTtl cfg) (world s))"
  by (simp add: setForecastPointsInCache_def Let_def split: prod.splits)

lemma fetchPoints_fresh_world:
  assumes "cacheUtil_get P (getCacheKey rt lat lng) (world s) = (Inr None, w)"
    and "getForecastPointsFromApi rt cfg P lat lng
           \<lparr>world = w, trace = trace s @ [CacheGet (getCacheKey rt lat lng)]\<rparr> = (Inr fresh, s2)"
  shows "world (snd (fetchPoints rt cfg P lat lng s))
           = snd (cacheUtil_set P (getCacheKey rt lat lng) fresh (cacheTtl cfg) (world s2))"
proof -
  have "world (snd (fetchPoints rt cfg P lat lng s))
          = world (snd (setForecastPointsInCache cfg P (getCacheKey rt lat lng) fresh s2))"
    by (simp add: fetchPoints_absent [OF assms(1)] assms(2) split: prod.splits sum.splits)
  then show ?thesis by (simp add: set_world)
qed

lemma example_api:
  "getForecastPointsFromApi exampleRuntime exampleConfig examplePorts (Finite 10) (Finite 20)
       \<lparr>world = [], trace = [CacheGet exampleKey]\<rparr>
     = (Inr exampleFresh,
        \<lparr>world = [], trace = [CacheGet exampleKey, HttpGet exampleUrl ''token'']\<rparr>)"
proof -
  have token: "apiToken exampleConfig = ''token''"
    by (simp add: exampleConfig_def)
  show ?thesis
    by (simp add: getForecastPointsFromApi_def Let_def examplePorts_def example_url
          example_normalized token)
qed

lemma fetchPoints_absent_trace:
  assumes "cacheUtil_get P (getCacheKey rt lat lng) (world s) = (Inr None, w)"
  shows "\<exists>rest. trace (snd (fetchPoints rt cfg P lat lng s))
           = trace s @
             [CacheGet (getCacheKey rt lat lng),
              HttpGet (requestUrl rt cfg lat lng (getUnixTimeForAFutureDay P 1 w)) (apiToken cfg)]
             @ rest"
proof (cases "getForecastPointsFromApi rt cfg P lat lng
                \<lparr>world = w, trace = trace s @ [CacheGet (getCacheKey rt lat lng)]\<rparr>")
  case (Pair r s2)
  have t2: "trace s2 = trace s @
      [CacheGet (getCacheKey rt lat lng),
       HttpGet (requestUrl rt cfg lat lng (getUnixTimeForAFutureDay P 1 w)) (apiToken cfg)]"
    using api_trace [of rt cfg P lat lng
        "\<lparr>world = w, trace = trace s @ [CacheGet (getCacheKey rt lat lng)]\<rparr>"] Pair
    by simp
  show ?thesis
  proof (cases r)
    case (Inl e)
    with Pair t2 show ?thesis
      by (simp add: fetchPoints_absent [OF assms])
  next
    case (Inr fresh)
    with Pair have "getForecastPointsFromApi rt cfg P lat lng
        \<lparr>world = w, trace = trace s @ [CacheGet (getCacheKey rt lat lng)]\<rparr> = (Inr fresh, s2)"
      by simp
    from fetchPoints_fresh_trace [OF assms this] show ?thesis
      by simp
  qed
qed

section \<open>Claims on the cache-aside flow\<close>

text \<open>
  C1. For every pair of coordinates, if the cache lookup under their key returns a
  present, non-empty sequence, \<open>fetchPoints\<close> returns that sequence; the only calls
  it makes are the lookup and the log line: no HTTP request and no cache write.
\<close>

theorem fetchPoints_cache_hit:
  assumes "cacheUtil_get P (getCacheKey rt lat lng) (world s) = (Inr (Some cached), w)"
    and "cached \<noteq> []"
  shows "fst (fetchPoints rt cfg P lat lng s) = Inr cached
         \<and> world (snd (fetchPoints rt cfg P lat lng s)) = w
         \<and> newEvents s (snd (fetchPoints rt cfg P lat lng s))
             = [CacheGet (getCacheKey rt lat lng),
                LoggerInfo (''Using cache to return forecast points for key: ''
                              @ getCacheKey rt lat lng)]
         \<and> filter isHttpGet (newEvents s (snd (fetchPoints rt cfg P lat lng s))) = []
         \<and> filter isCacheSet (newEvents s (snd (fetchPoints rt cfg P lat lng s))) = []"
  by (simp add: fetchPoints_present [OF assms(1)] newEvents_def)

theorem fetchPoints_cache_hit_witness:
  "cacheUtil_get examplePorts (getCacheKey exampleRuntime (Finite 10) (Finite 20)) (world warmState)
     = (Inr (Some [examplePoint]), [(exampleKey, [examplePoint])])
   \<and> [examplePoint] \<noteq> []
   \<and> fst (fetchPoints exampleRuntime exampleConfig examplePorts (Finite 10) (Finite 20) warmState)
       = Inr [examplePoint]
   \<and> filter isHttpGet (newEvents warmState
        (snd (fetchPoints exampleRuntime exampleConfig examplePorts (Finite 10) (Finite 20) warmState)))
       = []
   \<and> filter isCacheSet (newEvents warmState
        (snd (fetchPoints exampleRuntime exampleConfig examplePorts (Finite 10) (Finite 20) warmState)))
       = []"
proof -
  have h: "cacheUtil_get examplePorts (getCacheKey exampleRuntime (Finite 10) (Finite 20))
             (world warmState)
           = (Inr (Some [examplePoint]), [(exampleKey, [examplePoint])])"
    by (simp add: example_key examplePorts_def warmState_def)
  have n: "[examplePoint] \<noteq> []" by simp
  from fetchPoints_cache_hit [OF h n, of exampleConfig] h show ?thesis
    by simp
qed

text \<open>
  C2. On a cache miss followed by a successful upstream fetch, the calls of
  \<open>fetchPoints\<close> are, in order: the lookup, the HTTP request, the log line, and
  \<open>cacheUtil.set\<close> with the key of the lookup, the sequence that the upstream path
  produced and the \<open>cacheTtl\<close> of the configuration, whatever the configuration is.
  The call is really made: the world that \<open>fetchPoints\<close> leaves is the one that
  \<open>cacheUtil.set\<close>, applied to these three arguments, leaves. When that call of
  \<open>set\<close> returns, with either boolean, \<open>fetchPoints\<close> returns the same sequence.
\<close>

theorem fetchPoints_miss_populates_cache:
  assumes "cacheUtil_get P (getCacheKey rt lat lng) (world s) = (Inr None, w)"
    and "getForecastPointsFromApi rt cfg P lat lng
           \<lparr>world = w, trace = trace s @ [CacheGet (getCacheKey rt lat lng)]\<rparr> = (Inr fresh, s2)"
  shows "newEvents s (snd (fetchPoints rt cfg P lat lng s))
           = [CacheGet (getCacheKey rt lat lng),
              HttpGet (requestUrl rt cfg lat lng (getUnixTimeForAFutureDay P 1 w)) (apiToken cfg),
              LoggerInfo (''Updating cache to return forecast points for key: ''
                            @ getCacheKey rt lat lng),
              CacheSet (getCacheKey rt lat lng) fresh (cacheTtl cfg)]
         \<and> world (snd (fetchPoints rt cfg P lat lng s))
             = snd (cacheUtil_set P (getCacheKey rt lat lng) fresh (cacheTtl cfg) (world s2))
         \<and> (\<forall>ok. fst (cacheUtil_set P (getCacheKey rt lat lng) fresh (cacheTtl cfg) (world s2)) = Inr ok
               \<longrightarrow> fst (fetchPoints rt cfg P lat lng s) = Inr fresh)"
proof -
  have stored: "world (snd (fetchPoints rt cfg P lat lng s))
             = snd (cacheUtil_set P (getCacheKey rt lat lng) fresh (cacheTtl cfg) (world s2))"
    by (rule fetchPoints_fresh_world [OF assms])
  have events: "newEvents s (snd (fetchPoints rt cfg P lat lng s))
           = [CacheGet (getCacheKey rt lat lng),
              HttpGet (requestUrl rt cfg lat lng (getUnixTimeForAFutureDay P 1 w)) (apiToken cfg),
              LoggerInfo (''Updating cache to return forecast points for key: ''
                            @ getCacheKey rt lat lng),
              CacheSet (getCacheKey rt lat lng) fresh (cacheTtl cfg)]"
    by (simp add: newEvents_def fetchPoints_fresh_trace [OF assms])
  have returns: "\<forall>ok. fst (cacheUtil_set P (getCacheKey rt lat lng) fresh (cacheTtl cfg) (world s2)) = Inr ok
               \<longrightarrow> fst (fetchPoints rt cfg P lat lng s) = Inr fresh"
    using fetchPoints_fresh_result [OF assms] by blast
  from events stored returns show ?thesis by simp
qed

theorem fetchPoints_miss_populates_cache_witness:
  "cacheUtil_get examplePorts (getCacheKey exampleRuntime (Finite 10) (Finite 20)) (world emptyState)
     = (Inr None, [])
   \<and> getForecastPointsFromApi exampleRuntime exampleConfig examplePorts (Finite 10) (Finite 20)
       \<lparr>world = [], trace = [CacheGet exampleKey]\<rparr>
     = (Inr exampleFresh, \<lparr>world = [], trace = [CacheGet exampleKey, HttpGet exampleUrl ''token'']\<rparr>)
   \<and> newEvents emptyState
        (snd (fetchPoints exampleRuntime exampleConfig examplePorts (Finite 10) (Finite 20) emptyState))
       = [CacheGet exampleKey, HttpGet exampleUrl ''token'',
          LoggerInfo ''Updating cache to return forecast points for key: forecast_points_10_20'',
          CacheSet exampleKey exampleFresh (Finite 3600)]
   \<and> world (snd (fetchPoints exampleRuntime exampleConfig examplePorts (Finite 10) (Finite 20)
                    emptyState))
       = [(exampleKey, exampleFresh)]
   \<and> fst (cacheUtil_set examplePorts exampleKey exampleFresh (Finite 3600) []) = Inr True
   \<and> fst (fetchPoints exampleRuntime exampleConfig examplePorts (Finite 10) (Finite 20) emptyState)
       = Inr exampleFresh"
proof -
  have w0: "world emptyState = []" "trace emptyState = []"
    by (simp_all add: emptyState_def)
  have miss: "cacheUtil_get examplePorts (getCacheKey exampleRuntime (Finite 10) (Finite 20))
                (world emptyState) = (Inr None, [])"
    by (simp add: examplePorts_def emptyState_def)
  have api: "getForecastPointsFromApi exampleRuntime exampleConfig examplePorts (Finite 10) (Finite 20)
       \<lparr>world = [], trace = trace emptyState
            @ [CacheGet (getCacheKey exampleRuntime (Finite 10) (Finite 20))]\<rparr>
     = (Inr exampleFresh, \<lparr>world = [], trace = [CacheGet exampleKey, HttpGet exampleUrl ''token'']\<rparr>)"
    by (simp add: w0 example_key example_api)
  have ok: "fst (cacheUtil_set examplePorts exampleKey exampleFresh (Finite 3600) []) = Inr True"
    by (simp add: examplePorts_def)
  have clock: "getUnixTimeForAFutureDay examplePorts days [] = Finite 1700000000" for days
    by (simp add: examplePorts_def)
  have cfg: "apiToken exampleConfig = ''token''" "cacheTtl exampleConfig = Finite 3600"
    by (simp_all add: exampleConfig_def)
  have key: "''Updating cache to return forecast points for key: '' @ exampleKey
               = ''Updating cache to return forecast points for key: forecast_points_10_20''"
    by (simp add: exampleKey_def)
  note claim = fetchPoints_miss_populates_cache [OF miss api]
  have events: "newEvents emptyState
        (snd (fetchPoints exampleRuntime exampleConfig examplePorts (Finite 10) (Finite 20) emptyState))
       = [CacheGet exampleKey, HttpGet exampleUrl ''token'',
          LoggerInfo ''Updating cache to return forecast points for key: forecast_points_10_20'',
          CacheSet exampleKey exampleFresh (Finite 3600)]"
    using claim by (simp only: example_key example_url clock cfg key)
  have result: "fst (fetchPoints exampleRuntime exampleConfig examplePorts (Finite 10) (Finite 20)
                  emptyState) = Inr exampleFresh"
  proof -
    have "fst (cacheUtil_set examplePorts (getCacheKey exampleRuntime (Finite 10) (Finite 20))
                 exampleFresh (cacheTtl exampleConfig)
                 (world \<lparr>world = [], trace = [CacheGet exampleKey, HttpGet exampleUrl ''token'']\<rparr>))
            = Inr True"
      by (simp add: examplePorts_def)
    with claim show ?thesis by blast
  qed
  have stored: "world (snd (fetchPoints exampleRuntime exampleConfig examplePorts (Finite 10) (Finite 20)
                    emptyState))
       = [(exampleKey, exampleFresh)]"
  proof -
    have "snd (cacheUtil_set examplePorts (getCacheKey exampleRuntime (Finite 10) (Finite 20))
                 exampleFresh (cacheTtl exampleConfig)
                 (world \<lparr>world = [], trace = [CacheGet exampleKey, HttpGet exampleUrl ''token'']\<rparr>))
            = [(exampleKey, exampleFresh)]"
      by (simp add: examplePorts_def example_key)
    with claim show ?thesis by simp
  qed
  from miss api events stored ok result show ?thesis
    by (simp add: w0 example_key)
qed

text \<open>
  C6, as the claim states it, fails: with a cache that holds the empty list under the
  key, \<open>fetchPoints\<close> returns the empty list and makes no HTTP request and no cache
  write, although the upstream path would have produced two points.
\<close>

theorem fetchPoints_empty_entry_counterexample:
  "cacheUtil_get examplePorts (getCacheKey exampleRuntime (Finite 10) (Finite 20)) (world emptyEntryState)
     = (Inr (Some []), [(exampleKey, [])])
   \<and> fetchPoints exampleRuntime exampleConfig examplePorts (Finite 10) (Finite 20) emptyEntryState
     = (Inr [],
        \<lparr>world = [(exampleKey, [])],
         trace = [CacheGet exampleKey,
                  LoggerInfo ''Using cache to return forecast points for key: forecast_points_10_20'']\<rparr>)
   \<and> fst (getForecastPointsFromApi exampleRuntime exampleConfig examplePorts (Finite 10) (Finite 20)
            \<lparr>world = [], trace = [CacheGet exampleKey]\<rparr>) = Inr exampleFresh
   \<and> exampleFresh \<noteq> []"
proof -
  have h: "cacheUtil_get examplePorts (getCacheKey exampleRuntime (Finite 10) (Finite 20))
             (world emptyEntryState) = (Inr (Some []), [(exampleKey, [])])"
    by (simp add: example_key examplePorts_def emptyEntryState_def)
  have key: "''Using cache to return forecast points for key: '' @ exampleKey
               = ''Using cache to return forecast points for key: forecast_points_10_20''"
    by (simp add: exampleKey_def)
  have t0: "trace emptyEntryState = []"
    by (simp add: emptyEntryState_def)
  have run: "fetchPoints exampleRuntime exampleConfig examplePorts (Finite 10) (Finite 20) emptyEntryState
     = (Inr [],
        \<lparr>world = [(exampleKey, [])],
         trace = [CacheGet exampleKey,
                  LoggerInfo ''Using cache to return forecast points for key: forecast_points_10_20'']\<rparr>)"
    using fetchPoints_present [OF h, of exampleConfig]
    by (simp only: example_key key t0 append_Nil)
  have fresh: "exampleFresh \<noteq> []"
    by (simp add: exampleFresh_def)
  from h run fresh show ?thesis
    by (simp add: example_api)
qed

text \<open>
  C6, amended. A present cached sequence is a hit whether or not it is empty: when the
  cache lookup yields a present but empty sequence, \<open>fetchPoints\<close> returns that empty
  sequence, and makes no HTTP request and no cache write. (The test of
  \<open>getForecastPointsFromCache\<close> is \<open>!forecastPointsFromCache\<close>, and an empty array is
  truthy; only \<open>undefined\<close> is a miss.)
\<close>

theorem fetchPoints_empty_entry_is_hit:
  assumes "cacheUtil_get P (getCacheKey rt lat lng) (world s) = (Inr (Some []), w)"
  shows "fst (fetchPoints rt cfg P lat lng s) = Inr []
         \<and> world (snd (fetchPoints rt cfg P lat lng s)) = w
         \<and> newEvents s (snd (fetchPoints rt cfg P lat lng s))
             = [CacheGet (getCacheKey rt lat lng),
                LoggerInfo (''Using cache to return forecast points for key: ''
                              @ getCacheKey rt lat lng)]
         \<and> filter isHttpGet (newEvents s (snd (fetchPoints rt cfg P lat lng s))) = []
         \<and> filter isCacheSet (newEvents s (snd (fetchPoints rt cfg P lat lng s))) = []"
  by (simp add: fetchPoints_present [OF assms] newEvents_def)

theorem fetchPoints_empty_entry_is_hit_witness:
  "cacheUtil_get examplePorts (getCacheKey exampleRuntime (Finite 10) (Finite 20)) (world emptyEntryState)
     = (Inr (Some []), [(exampleKey, [])])
   \<and> fst (fetchPoints exampleRuntime exampleConfig examplePorts (Finite 10) (Finite 20) emptyEntryState)
       = Inr []
   \<and> filter isHttpGet (newEvents emptyEntryState
        (snd (fetchPoints exampleRuntime exampleConfig examplePorts (Finite 10) (Finite 20)
               emptyEntryState))) = []
   \<and> filter isCacheSet (newEvents emptyEntryState
        (snd (fetchPoints exampleRuntime exampleConfig examplePorts (Finite 10) (Finite 20)
               emptyEntryState))) = []"
proof -
  have h: "cacheUtil_get examplePorts (getCacheKey exampleRuntime (Finite 10) (Finite 20))
             (world emptyEntryState) = (Inr (Some []), [(exampleKey, [])])"
    by (simp add: example_key examplePorts_def emptyEntryState_def)
  from fetchPoints_empty_entry_is_hit [OF h, of exampleConfig] h show ?thesis
    by simp
qed

text \<open>
  C8. On a cache miss followed by a successful upstream fetch, when \<open>cacheUtil.set\<close>
  reports failure (it returns \<open>false\<close>), \<open>fetchPoints\<close> does not fail: it returns
  the freshly fetched sequence, after having made the call of \<open>set\<close>.
\<close>

theorem fetchPoints_ignores_failed_write:
  assumes "cacheUtil_get P (getCacheKey rt lat lng) (world s) = (Inr None, w)"
    and "getForecastPointsFromApi rt cfg P lat lng
           \<lparr>world = w, trace = trace s @ [CacheGet (getCacheKey rt lat lng)]\<rparr> = (Inr fresh, s2)"
    and "fst (cacheUtil_set P (getCacheKey rt lat lng) fresh (cacheTtl cfg) (world s2)) = Inr False"
  shows "fst (fetchPoints rt cfg P lat lng s) = Inr fresh
         \<and> last (trace (snd (fetchPoints rt cfg P lat lng s)))
             = CacheSet (getCacheKey rt lat lng) fresh (cacheTtl cfg)"
proof -
  have result: "fst (fetchPoints rt cfg P lat lng s) = Inr fresh"
    by (rule fetchPoints_fresh_result [OF assms])
  have written: "last (trace (snd (fetchPoints rt cfg P lat lng s)))
             = CacheSet (getCacheKey rt lat lng) fresh (cacheTtl cfg)"
    by (simp add: fetchPoints_fresh_trace [OF assms(1,2)])
  from result written show ?thesis by simp
qed

theorem fetchPoints_ignores_failed_write_witness:
  "cacheUtil_get portsSetFails (getCacheKey exampleRuntime (Finite 10) (Finite 20)) (world emptyState)
     = (Inr None, [])
   \<and> fst (getForecastPointsFromApi exampleRuntime exampleConfig portsSetFails (Finite 10) (Finite 20)
            \<lparr>world = [], trace = [CacheGet exampleKey]\<rparr>) = Inr exampleFresh
   \<and> fst (cacheUtil_set portsSetFails exampleKey exampleFresh (Finite 3600) []) = Inr False
   \<and> fst (fetchPoints exampleRuntime exampleConfig portsSetFails (Finite 10) (Finite 20) emptyState)
       = Inr exampleFresh"
proof -
  have w0: "world emptyState = []" "trace emptyState = []"
    by (simp_all add: emptyState_def)
  have miss: "cacheUtil_get portsSetFails (getCacheKey exampleRuntime (Finite 10) (Finite 20))
                (world emptyState) = (Inr None, [])"
    by (simp add: portsSetFails_def examplePorts_def emptyState_def)
  have token: "apiToken exampleConfig = ''token''"
    by (simp add: exampleConfig_def)
  have api: "getForecastPointsFromApi exampleRuntime exampleConfig portsSetFails (Finite 10) (Finite 20)
       \<lparr>world = [], trace = trace emptyState
            @ [CacheGet (getCacheKey exampleRuntime (Finite 10) (Finite 20))]\<rparr>
     = (Inr exampleFresh, \<lparr>world = [], trace = [CacheGet exampleKey, HttpGet exampleUrl ''token'']\<rparr>)"
    by (simp add: getForecastPointsFromApi_def Let_def portsSetFails_def examplePorts_def
          example_url example_normalized token w0 example_key)
  have failed: "fst (cacheUtil_set portsSetFails (getCacheKey exampleRuntime (Finite 10) (Finite 20))
                  exampleFresh (cacheTtl exampleConfig)
                  (world \<lparr>world = [], trace = [CacheGet exampleKey, HttpGet exampleUrl ''token'']\<rparr>))
                = Inr False"
    by (simp add: portsSetFails_def)
  have failed': "fst (cacheUtil_set portsSetFails exampleKey exampleFresh (Finite 3600) []) = Inr False"
    by (simp add: portsSetFails_def)
  from fetchPoints_ignores_failed_write [OF miss api failed] miss api failed'
  show ?thesis
    by (simp add: w0 example_key)
qed

text \<open>
  C9, as the claim states it, fails: when \<open>cacheUtil.get\<close> throws, \<open>fetchPoints\<close>
  throws that error to its caller, and no HTTP request is made.
\<close>

theorem fetchPoints_cache_read_failure_counterexample:
  "cacheUtil_get portsGetThrows (getCacheKey exampleRuntime (Finite 10) (Finite 20)) (world emptyState)
     = (Inl cacheDown, [])
   \<and> fetchPoints exampleRuntime exampleConfig portsGetThrows (Finite 10) (Finite 20) emptyState
     = (Inl (Uncaught cacheDown), \<lparr>world = [], trace = [CacheGet exampleKey]\<rparr>)"
  by (simp add: fetchPoints_def getForecastPointsFromCache_def portsGetThrows_def emptyState_def
        example_key)

text \<open>
  C9, amended. A cache lookup that yields no value (\<open>undefined\<close>) is a miss: the call
  proceeds to the upstream fetch path, the HTTP request being its next call. The client
  does not catch what \<open>cacheUtil.get\<close> throws: a cache-read failure raised as an
  exception is surfaced to the caller of \<open>fetchPoints\<close> as it is, and nothing else is
  called.
\<close>

theorem fetchPoints_absent_proceeds_and_throw_surfaces:
  "(\<forall>w. cacheUtil_get P (getCacheKey rt lat lng) (world s) = (Inr None, w) \<longrightarrow>
        take 2 (newEvents s (snd (fetchPoints rt cfg P lat lng s)))
          = [CacheGet (getCacheKey rt lat lng),
             HttpGet (requestUrl rt cfg lat lng (getUnixTimeForAFutureDay P 1 w)) (apiToken cfg)])
   \<and> (\<forall>e w. cacheUtil_get P (getCacheKey rt lat lng) (world s) = (Inl e, w) \<longrightarrow>
        fetchPoints rt cfg P lat lng s
          = (Inl (Uncaught e),
             \<lparr>world = w, trace = trace s @ [CacheGet (getCacheKey rt lat lng)]\<rparr>))"
proof -
  have absent: "take 2 (newEvents s (snd (fetchPoints rt cfg P lat lng s)))
          = [CacheGet (getCacheKey rt lat lng),
             HttpGet (requestUrl rt cfg lat lng (getUnixTimeForAFutureDay P 1 w)) (apiToken cfg)]"
    if "cacheUtil_get P (getCacheKey rt lat lng) (world s) = (Inr None, w)" for w
    using fetchPoints_absent_trace [OF that, of cfg]
    by (auto simp: newEvents_def)
  have thrown: "fetchPoints rt cfg P lat lng s
          = (Inl (Uncaught e),
             \<lparr>world = w, trace = trace s @ [CacheGet (getCacheKey rt lat lng)]\<rparr>)"
    if "cacheUtil_get P (getCacheKey rt lat lng) (world s) = (Inl e, w)" for e w
    by (simp add: fetchPoints_def cache_throws [OF that])
  from absent thrown show ?thesis by blast
qed

theorem fetchPoints_absent_proceeds_and_throw_surfaces_witness:
  "cacheUtil_get examplePorts (getCacheKey exampleRuntime (Finite 10) (Finite 20)) (world emptyState)
     = (Inr None, [])
   \<and> take 2 (newEvents emptyState
        (snd (fetchPoints exampleRuntime exampleConfig examplePorts (Finite 10) (Finite 20) emptyState)))
       = [CacheGet exampleKey, HttpGet exampleUrl ''token'']
   \<and> cacheUtil_get portsGetThrows (getCacheKey exampleRuntime (Finite 10) (Finite 20)) (world emptyState)
     = (Inl cacheDown, [])
   \<and> fetchPoints exampleRuntime exampleConfig portsGetThrows (Finite 10) (Finite 20) emptyState
     = (Inl (Uncaught cacheDown), \<lparr>world = [], trace = [CacheGet exampleKey]\<rparr>)"
proof -
  have w0: "world emptyState = []" "trace emptyState = []"
    by (simp_all add: emptyState_def)
  have miss: "cacheUtil_get examplePorts (getCacheKey exampleRuntime (Finite 10) (Finite 20))
                (world emptyState) = (Inr None, [])"
    by (simp add: examplePorts_def emptyState_def)
  have thrown: "cacheUtil_get portsGetThrows (getCacheKey exampleRuntime (Finite 10) (Finite 20))
                (world emptyState) = (Inl cacheDown, [])"
    by (simp add: portsGetThrows_def emptyState_def)
  have clock: "getUnixTimeForAFutureDay examplePorts days [] = Finite 1700000000" for days
    by (simp add: examplePorts_def)
  have token: "apiToken exampleConfig = ''token''"
    by (simp add: exampleConfig_def)
  note claim = fetchPoints_absent_proceeds_and_throw_surfaces
  have proceeds: "take 2 (newEvents emptyState
        (snd (fetchPoints exampleRuntime exampleConfig examplePorts (Finite 10) (Finite 20) emptyState)))
       = [CacheGet exampleKey, HttpGet exampleUrl ''token'']"
    using claim [of examplePorts exampleRuntime "Finite 10" "Finite 20" emptyState exampleConfig] miss
    by (simp only: example_key example_url clock token)
  have surfaces: "fetchPoints exampleRuntime exampleConfig portsGetThrows (Finite 10) (Finite 20) emptyState
     = (Inl (Uncaught cacheDown), \<lparr>world = [], trace = [CacheGet exampleKey]\<rparr>)"
    using claim [of portsGetThrows exampleRuntime "Finite 10" "Finite 20" emptyState exampleConfig] thrown
    by (simp add: example_key w0)
  from miss proceeds thrown surfaces show ?thesis by simp
qed

section \<open>Claims on the error taxonomy\<close>

lemma sublist_third: "sublist x (a @ b @ c @ x @ d)"
proof -
  have "sublist x ((a @ b @ c) @ x @ d)" by (rule sublist_appendI)
  then show ?thesis by (simp only: append_assoc)
qed

lemma sublist_last_of_five: "sublist y (a @ b @ c @ x @ d @ y)"
proof -
  have "sublist y ((a @ b @ c @ x @ d) @ y @ [])" by (rule sublist_appendI)
  then show ?thesis by (simp only: append_assoc append_Nil2)
qed

lemma sublist_last_of_three: "sublist m (a @ b @ m)"
proof -
  have "sublist m ((a @ b) @ m @ [])" by (rule sublist_appendI)
  then show ?thesis by (simp only: append_assoc append_Nil2)
qed

lemma catchBlock_with_response:
  assumes "response err = Some r"
  shows "catchBlock rt err
           = StormGlassResponseError
               (''Unexpected error returned by the StormGlass Service'' @ '': '' @ ''Error: ''
                  @ JSON_stringify rt (data r) @ '' Code: '' @ numberToString rt (status r))"
  using assms
  by (simp add: catchBlock_def isRequestError_def new_StormGlassResponseError_def)

lemma catchBlock_without_response:
  assumes "response err = None"
  shows "catchBlock rt err
           = ClientRequestError
               (''Unexpected error when trying to communicate to StormGlass'' @ '': '' @ message err)"
  using assms
  by (simp add: catchBlock_def isRequestError_def new_ClientRequestError_def)

lemma api_error_class:
  assumes "fst (getForecastPointsFromApi rt cfg P lat lng s) = Inl e"
  shows "classOf e = IsClientRequestError \<or> classOf e = IsStormGlassResponseError"
proof -
  from api_error_is_caught [OF assms] obtain err where "e = catchBlock rt err" ..
  then show ?thesis by (simp add: catchBlock_class)
qed

lemma api_malformed_body:
  fixes rt :: "'b runtime"
  assumes "request_get P (requestUrl rt cfg lat lng (getUnixTimeForAFutureDay P 1 (world s)))
             (apiToken cfg) (world s) = (Inr d, w)"
    and "hours d = None"
  shows "fst (getForecastPointsFromApi rt cfg P lat lng s)
           = Inl (ClientRequestError
               (''Unexpected error when trying to communicate to StormGlass'' @ '': ''
                  @ message (typeError ''filter'' :: 'b js_error)))"
proof -
  have n: "(normalizeResponse d :: 'b js_error + ForecastPoint list) = Inl (typeError ''filter'')"
    by (simp add: normalizeResponse_def assms(2))
  have r: "response (typeError ''filter'' :: 'b js_error) = None"
    by (simp add: typeError_def)
  have "fst (getForecastPointsFromApi rt cfg P lat lng s)
          = Inl (catchBlock rt (typeError ''filter''))"
    using assms(1) n by (simp add: getForecastPointsFromApi_def Let_def)
  then show ?thesis
    by (simp only: catchBlock_without_response [OF r])
qed

lemma fetchPoints_error_class:
  assumes "fst (fetchPoints rt cfg P lat lng s) = Inl e"
  shows "classOf e \<noteq> IsStormGlassUnexpectedResponseError"
proof (cases "getForecastPointsFromCache P (getCacheKey rt lat lng) s")
  case (Pair c s1)
  show ?thesis
  proof (cases c)
    case (Inl ce)
    with Pair assms show ?thesis by (auto simp: fetchPoints_def)
  next
    case (Inr found)
    show ?thesis
    proof (cases found)
      case (Some cached)
      with Pair Inr assms show ?thesis by (simp add: fetchPoints_def)
    next
      case None
      show ?thesis
      proof (cases "getForecastPointsFromApi rt cfg P lat lng s1")
        case api: (Pair a s2)
        show ?thesis
        proof (cases a)
          case (Inl ae)
          with Pair Inr None api assms have "e = ae" by (simp add: fetchPoints_def)
          moreover from api Inl have "fst (getForecastPointsFromApi rt cfg P lat lng s1) = Inl ae"
            by simp
          ultimately show ?thesis using api_error_class by fastforce
        next
          case fresh: (Inr forecastPoints)
          with Pair Inr None api assms show ?thesis
            by (auto simp: fetchPoints_def split: prod.splits sum.splits)
        qed
      qed
    qed
  qed
qed

lemma error_of_class:
  "classOf e = IsStormGlassResponseError \<Longrightarrow> e = StormGlassResponseError (messageOf e)"
  "classOf e = IsClientRequestError \<Longrightarrow> e = ClientRequestError (messageOf e)"
  by (cases e; simp)+

text \<open>
  C5. When the HTTP request of the upstream fetch path fails with \<open>err\<close>: if
  \<open>err\<close> carries a response (body and status), the client throws a
  \<open>StormGlassResponseError\<close> whose message contains the serialized body and the
  status; otherwise it throws a \<open>ClientRequestError\<close> whose message contains
  \<open>err.message\<close>. The two classes are different.
\<close>

theorem upstream_failure_is_classified:
  assumes "request_get P (requestUrl rt cfg lat lng (getUnixTimeForAFutureDay P 1 (world s)))
             (apiToken cfg) (world s) = (Inl err, w)"
  shows "(\<forall>r. response err = Some r \<longrightarrow>
            (\<exists>e. fst (getForecastPointsFromApi rt cfg P lat lng s) = Inl e
               \<and> classOf e = IsStormGlassResponseError
               \<and> messageOf e
                   = ''Unexpected error returned by the StormGlass Service'' @ '': '' @ ''Error: ''
                       @ JSON_stringify rt (data r) @ '' Code: '' @ numberToString rt (status r)
               \<and> sublist (JSON_stringify rt (data r)) (messageOf e)
               \<and> sublist (numberToString rt (status r)) (messageOf e)))
         \<and> (response err = None \<longrightarrow>
            (\<exists>e. fst (getForecastPointsFromApi rt cfg P lat lng s) = Inl e
               \<and> classOf e = IsClientRequestError
               \<and> messageOf e
                   = ''Unexpected error when trying to communicate to StormGlass'' @ '': ''
                       @ message err
               \<and> sublist (message err) (messageOf e)))
         \<and> IsStormGlassResponseError \<noteq> IsClientRequestError"
proof -
  note thrown = api_caught [OF assms]
  have with_response:
    "\<exists>e. fst (getForecastPointsFromApi rt cfg P lat lng s) = Inl e
       \<and> classOf e = IsStormGlassResponseError
       \<and> messageOf e
           = ''Unexpected error returned by the StormGlass Service'' @ '': '' @ ''Error: ''
               @ JSON_stringify rt (data r) @ '' Code: '' @ numberToString rt (status r)
       \<and> sublist (JSON_stringify rt (data r)) (messageOf e)
       \<and> sublist (numberToString rt (status r)) (messageOf e)"
    if "response err = Some r" for r
  proof -
    let ?m = "''Unexpected error returned by the StormGlass Service'' @ '': '' @ ''Error: ''
               @ JSON_stringify rt (data r) @ '' Code: '' @ numberToString rt (status r)"
    have e: "fst (getForecastPointsFromApi rt cfg P lat lng s) = Inl (StormGlassResponseError ?m)"
      by (simp only: thrown catchBlock_with_response [OF that])
    have body: "sublist (JSON_stringify rt (data r)) ?m"
      by (rule sublist_third)
    have code: "sublist (numberToString rt (status r)) ?m"
      by (rule sublist_last_of_five)
    from e body code show ?thesis
      by (intro exI [of _ "StormGlassResponseError ?m"]) (simp only: classOf.simps messageOf.simps)
  qed
  have without_response:
    "\<exists>e. fst (getForecastPointsFromApi rt cfg P lat lng s) = Inl e
       \<and> classOf e = IsClientRequestError
       \<and> messageOf e
           = ''Unexpected error when trying to communicate to StormGlass'' @ '': '' @ message err
       \<and> sublist (message err) (messageOf e)"
    if "response err = None"
  proof -
    let ?m = "''Unexpected error when trying to communicate to StormGlass'' @ '': '' @ message err"
    have e: "fst (getForecastPointsFromApi rt cfg P lat lng s) = Inl (ClientRequestError ?m)"
      by (simp only: thrown catchBlock_without_response [OF that])
    have msg: "sublist (message err) ?m"
      by (rule sublist_last_of_three)
    from e msg show ?thesis
      by (intro exI [of _ "ClientRequestError ?m"]) (simp only: classOf.simps messageOf.simps)
  qed
  from with_response without_response show ?thesis by simp
qed

theorem upstream_failure_is_classified_witness:
  "request_get portsUpstreamRejects exampleUrl ''token'' [] = (Inl rateLimited, [])
   \<and> response rateLimited = Some \<lparr>data = ''{errors:[Rate Limit reached]}'', status = Finite 429\<rparr>
   \<and> fst (getForecastPointsFromApi exampleRuntime exampleConfig portsUpstreamRejects
            (Finite 10) (Finite 20) emptyState)
       = Inl (StormGlassResponseError
           ''Unexpected error returned by the StormGlass Service: Error: {errors:[Rate Limit reached]} Code: 429'')
   \<and> request_get portsNetworkDown exampleUrl ''token'' [] = (Inl networkError, [])
   \<and> response networkError = None
   \<and> fst (getForecastPointsFromApi exampleRuntime exampleConfig portsNetworkDown
            (Finite 10) (Finite 20) emptyState)
       = Inl (ClientRequestError
           ''Unexpected error when trying to communicate to StormGlass: Network Error'')"
proof -
  have rejected: "request_get portsUpstreamRejects
      (requestUrl exampleRuntime exampleConfig (Finite 10) (Finite 20)
         (getUnixTimeForAFutureDay portsUpstreamRejects 1 (world emptyState)))
      (apiToken exampleConfig) (world emptyState) = (Inl rateLimited, [])"
    by (simp add: portsUpstreamRejects_def emptyState_def)
  have down: "request_get portsNetworkDown
      (requestUrl exampleRuntime exampleConfig (Finite 10) (Finite 20)
         (getUnixTimeForAFutureDay portsNetworkDown 1 (world emptyState)))
      (apiToken exampleConfig) (world emptyState) = (Inl networkError, [])"
    by (simp add: portsNetworkDown_def emptyState_def)
  have r1: "response rateLimited = Some \<lparr>data = ''{errors:[Rate Limit reached]}'', status = Finite 429\<rparr>"
    by (simp add: rateLimited_def)
  have r2: "response networkError = None"
    by (simp add: networkError_def)
  from upstream_failure_is_classified [OF rejected] r1
  obtain e1 where e1: "fst (getForecastPointsFromApi exampleRuntime exampleConfig portsUpstreamRejects
            (Finite 10) (Finite 20) emptyState) = Inl e1"
    "classOf e1 = IsStormGlassResponseError"
    "messageOf e1 = ''Unexpected error returned by the StormGlass Service'' @ '': '' @ ''Error: ''
        @ JSON_stringify exampleRuntime (data \<lparr>data = ''{errors:[Rate Limit reached]}'', status = Finite 429\<rparr>)
        @ '' Code: ''
        @ numberToString exampleRuntime (status \<lparr>data = ''{errors:[Rate Limit reached]}'', status = Finite 429\<rparr>)"
    by blast
  from upstream_failure_is_classified [OF down] r2
  obtain e2 where e2: "fst (getForecastPointsFromApi exampleRuntime exampleConfig portsNetworkDown
            (Finite 10) (Finite 20) emptyState) = Inl e2"
    "classOf e2 = IsClientRequestError"
    "messageOf e2 = ''Unexpected error when trying to communicate to StormGlass'' @ '': ''
        @ message networkError"
    by blast
  have m1: "messageOf e1
      = ''Unexpected error returned by the StormGlass Service: Error: {errors:[Rate Limit reached]} Code: 429''"
    by (simp add: e1(3) exampleRuntime_def)
  have m2: "messageOf e2 = ''Unexpected error when trying to communicate to StormGlass: Network Error''"
    by (simp add: e2(3) networkError_def)
  have first: "fst (getForecastPointsFromApi exampleRuntime exampleConfig portsUpstreamRejects
            (Finite 10) (Finite 20) emptyState)
       = Inl (StormGlassResponseError
           ''Unexpected error returned by the StormGlass Service: Error: {errors:[Rate Limit reached]} Code: 429'')"
    using e1(1) error_of_class(1) [OF e1(2)] m1 by simp
  have second: "fst (getForecastPointsFromApi exampleRuntime exampleConfig portsNetworkDown
            (Finite 10) (Finite 20) emptyState)
       = Inl (ClientRequestError
           ''Unexpected error when trying to communicate to StormGlass: Network Error'')"
    using e2(1) error_of_class(2) [OF e2(2)] m2 by simp
  have p1: "request_get portsUpstreamRejects exampleUrl ''token'' [] = (Inl rateLimited, [])"
    by (simp add: portsUpstreamRejects_def)
  have p2: "request_get portsNetworkDown exampleUrl ''token'' [] = (Inl networkError, [])"
    by (simp add: portsNetworkDown_def)
  from p1 r1 first p2 r2 second show ?thesis by simp
qed

text \<open>
  C10. Every error that \<open>getForecastPointsFromApi\<close> throws is a
  \<open>ClientRequestError\<close> or a \<open>StormGlassResponseError\<close>. In particular a success
  payload without an \<open>hours\<close> array, on which \<open>normalizeResponse\<close> raises inside the
  \<open>try\<close> block, ends as a \<open>ClientRequestError\<close>. No error thrown by
  \<open>getForecastPointsFromApi\<close> or by \<open>fetchPoints\<close> is a
  \<open>StormGlassUnexpectedResponseError\<close>.
\<close>

theorem upstream_path_throws_two_classes:
  "(\<forall>e. fst (getForecastPointsFromApi rt cfg P lat lng s) = Inl e \<longrightarrow>
        classOf e = IsClientRequestError \<or> classOf e = IsStormGlassResponseError)
   \<and> (\<forall>d w. request_get P (requestUrl rt cfg lat lng (getUnixTimeForAFutureDay P 1 (world s)))
               (apiToken cfg) (world s) = (Inr d, w) \<and> hours d = None \<longrightarrow>
        (\<exists>m. fst (getForecastPointsFromApi rt cfg P lat lng s) = Inl (ClientRequestError m)))
   \<and> (\<forall>e. fst (getForecastPointsFromApi rt cfg P lat lng s) = Inl e \<longrightarrow>
        classOf e \<noteq> IsStormGlassUnexpectedResponseError)
   \<and> (\<forall>e. fst (fetchPoints rt cfg P lat lng s) = Inl e \<longrightarrow>
        classOf e \<noteq> IsStormGlassUnexpectedResponseError)"
proof -
  have two: "classOf e = IsClientRequestError \<or> classOf e = IsStormGlassResponseError"
    if "fst (getForecastPointsFromApi rt cfg P lat lng s) = Inl e" for e
    using that by (rule api_error_class)
  have malformed: "\<exists>m. fst (getForecastPointsFromApi rt cfg P lat lng s) = Inl (ClientRequestError m)"
    if "request_get P (requestUrl rt cfg lat lng (getUnixTimeForAFutureDay P 1 (world s)))
               (apiToken cfg) (world s) = (Inr d, w)" and "hours d = None" for d w
    using api_malformed_body [OF that] by blast
  have never_api: "classOf e \<noteq> IsStormGlassUnexpectedResponseError"
    if "fst (getForecastPointsFromApi rt cfg P lat lng s) = Inl e" for e
    using two [OF that] by auto
  have never: "classOf e \<noteq> IsStormGlassUnexpectedResponseError"
    if "fst (fetchPoints rt cfg P lat lng s) = Inl e" for e
    using that by (rule fetchPoints_error_class)
  from two malformed never_api never show ?thesis by blast
qed

theorem upstream_path_throws_two_classes_witness:
  "request_get portsMalformedBody exampleUrl ''token'' [] = (Inr \<lparr>hours = None\<rparr>, [])
   \<and> fst (getForecastPointsFromApi exampleRuntime exampleConfig portsMalformedBody
            (Finite 10) (Finite 20) emptyState)
       = Inl (ClientRequestError
           (''Unexpected error when trying to communicate to StormGlass: ''
              @ ''Cannot read properties of undefined (reading 'filter')''))
   \<and> (\<exists>m. fst (getForecastPointsFromApi exampleRuntime exampleConfig portsMalformedBody
                 (Finite 10) (Finite 20) emptyState) = Inl (ClientRequestError m))
   \<and> classOf (ClientRequestError
           (''Unexpected error when trying to communicate to StormGlass: ''
              @ ''Cannot read properties of undefined (reading 'filter')'') :: string error)
       \<noteq> IsStormGlassUnexpectedResponseError
   \<and> fst (fetchPoints exampleRuntime exampleConfig portsMalformedBody (Finite 10) (Finite 20) emptyState)
       = Inl (ClientRequestError
           (''Unexpected error when trying to communicate to StormGlass: ''
              @ ''Cannot read properties of undefined (reading 'filter')''))"
proof -
  let ?e = "ClientRequestError
           (''Unexpected error when trying to communicate to StormGlass: ''
              @ ''Cannot read properties of undefined (reading 'filter')'') :: string error"
  have body: "request_get portsMalformedBody
      (requestUrl exampleRuntime exampleConfig (Finite 10) (Finite 20)
         (getUnixTimeForAFutureDay portsMalformedBody 1 (world emptyState)))
      (apiToken exampleConfig) (world emptyState) = (Inr \<lparr>hours = None\<rparr>, [])
      \<and> hours \<lparr>hours = None\<rparr> = None"
    by (simp add: portsMalformedBody_def emptyState_def)
  have api: "fst (getForecastPointsFromApi exampleRuntime exampleConfig portsMalformedBody
            (Finite 10) (Finite 20) emptyState) = Inl ?e"
    by (simp add: getForecastPointsFromApi_def Let_def portsMalformedBody_def normalizeResponse_def
          catchBlock_def isRequestError_def typeError_def new_ClientRequestError_def)
  have all: "fst (fetchPoints exampleRuntime exampleConfig portsMalformedBody (Finite 10) (Finite 20)
                emptyState) = Inl ?e"
    by (simp add: fetchPoints_def getForecastPointsFromCache_def getForecastPointsFromApi_def Let_def
          portsMalformedBody_def examplePorts_def emptyState_def normalizeResponse_def
          catchBlock_def isRequestError_def typeError_def new_ClientRequestError_def)
  note claim = upstream_path_throws_two_classes
      [of exampleRuntime exampleConfig portsMalformedBody "Finite 10" "Finite 20" emptyState]
  from claim body
  have ex: "\<exists>m. fst (getForecastPointsFromApi exampleRuntime exampleConfig portsMalformedBody
                 (Finite 10) (Finite 20) emptyState) = Inl (ClientRequestError m)"
    by blast
  from claim all have never: "classOf ?e \<noteq> IsStormGlassUnexpectedResponseError"
    by blast
  have p: "request_get portsMalformedBody exampleUrl ''token'' [] = (Inr \<lparr>hours = None\<rparr>, [])"
    by (simp add: portsMalformedBody_def)
  from p api ex never all show ?thesis by blast
qed

section \<open>Further facts\<close>

text \<open>
  An exception of \<open>cacheUtil.set\<close> is not caught either: it reaches the caller of
  \<open>fetchPoints\<close>, after the upstream fetch.
\<close>

lemma fetchPoints_set_throw_surfaces:
  assumes "cacheUtil_get P (getCacheKey rt lat lng) (world s) = (Inr None, w)"
    and "getForecastPointsFromApi rt cfg P lat lng
           \<lparr>world = w, trace = trace s @ [CacheGet (getCacheKey rt lat lng)]\<rparr> = (Inr fresh, s2)"
    and "fst (cacheUtil_set P (getCacheKey rt lat lng) fresh (cacheTtl cfg) (world s2)) = Inl e"
  shows "fst (fetchPoints rt cfg P lat lng s) = Inl (Uncaught e)"
proof -
  have "fst (setForecastPointsInCache cfg P (getCacheKey rt lat lng) fresh s2) = Inl e"
    by (simp add: set_result assms(3))
  then show ?thesis
    by (auto simp: fetchPoints_absent [OF assms(1)] assms(2) split: prod.splits sum.splits)
qed

text \<open>
  How an empty entry gets into the cache: when no record of the upstream answer is
  valid, the normalized sequence is empty and \<open>fetchPoints\<close> stores it; the next call
  for the same coordinates finds it and makes no HTTP request.
\<close>

lemma fetchPoints_stores_empty_sequence:
  "fetchPoints exampleRuntime exampleConfig portsAllInvalid (Finite 10) (Finite 20) emptyState
     = (Inr [],
        \<lparr>world = [(exampleKey, [])],
         trace = [CacheGet exampleKey, HttpGet exampleUrl ''token'',
                  LoggerInfo ''Updating cache to return forecast points for key: forecast_points_10_20'',
                  CacheSet exampleKey [] (Finite 3600)]\<rparr>)"
proof -
  have v: "\<not> isValidPoint recordWithoutSource" "\<not> isValidPoint recordWithZero"
    by (simp_all add: isValidPoint_def validRecord_def recordWithoutSource_def recordWithZero_def
          stormGlassAPISource_def)
  have n: "(normalizeResponse \<lparr>hours = Some [recordWithZero, recordWithoutSource]\<rparr>
              :: string js_error + ForecastPoint list) = Inr []"
    by (simp add: normalizeResponse_def v)
  have cfg: "apiToken exampleConfig = ''token''" "cacheTtl exampleConfig = Finite 3600"
    by (simp_all add: exampleConfig_def)
  have key: "''Updating cache to return forecast points for key: '' @ exampleKey
               = ''Updating cache to return forecast points for key: forecast_points_10_20''"
    by (simp add: exampleKey_def)
  show ?thesis
    by (simp add: fetchPoints_def getForecastPointsFromCache_def getForecastPointsFromApi_def
          setForecastPointsInCache_def Let_def portsAllInvalid_def examplePorts_def emptyState_def
          example_key example_url n cfg key exampleKey_def)
qed

lemma fetchPoints_then_serves_empty_sequence:
  "fetchPoints exampleRuntime exampleConfig portsAllInvalid (Finite 10) (Finite 20)
       \<lparr>world = [(exampleKey, [])], trace = []\<rparr>
     = (Inr [],
        \<lparr>world = [(exampleKey, [])],
         trace = [CacheGet exampleKey,
                  LoggerInfo ''Using cache to return forecast points for key: forecast_points_10_20'']\<rparr>)"
proof -
  have key: "''Using cache to return forecast points for key: '' @ exampleKey
               = ''Using cache to return forecast points for key: forecast_points_10_20''"
    by (simp add: exampleKey_def)
  show ?thesis
    by (simp add: fetchPoints_def getForecastPointsFromCache_def portsAllInvalid_def
          examplePorts_def example_key key exampleKey_def)
qed

section \<open>Claims on the cache key\<close>








end
